theory Spec2Isabelle
  imports Complex_Main
begin

section \<open>Ledger reconciliation engine of JustDAO-UI\<close>

text \<open>
  A shallow embedding of the hooks \<open>useVoting\<close> (src/useVoting.js), \<open>useDAOStats\<close>
  (src/unnamed/part_002) and of the vote submission of \<open>VoteTab\<close> (src/VoteTab.jsx).
  Every remote call of the source (\<open>await contracts.governance...\<close>) is a field of an
  environment record holding what the call answers: \<open>Inr v\<close> when the promise resolves
  with \<open>v\<close>, \<open>Inl e\<close> when it rejects with \<open>e\<close>. A JavaScript function that may throw
  returns a value of \<open>error + 'a\<close>; a \<open>try\<close>/\<open>catch\<close> is a case distinction on it.
\<close>

subsection \<open>Errors\<close>

datatype error =
    NotConnected          \<comment> \<open>"Not connected to blockchain"\<close>
  | NotInitialized        \<comment> \<open>"Governance contract not initialized"\<close>
  | InvalidVoteType       \<comment> \<open>"Invalid vote type. Must be 0 (Against), 1 (For), or 2 (Abstain)"\<close>
  | InactiveProposal      \<comment> \<open>"Proposal is not active. Cannot vote on inactive proposals."\<close>
  | AlreadyVoted          \<comment> \<open>"You have already voted on this proposal"\<close>
  | NoVotingPower         \<comment> \<open>"You don't have any voting power for this proposal. ..."\<close>
  | NotFound              \<comment> \<open>the error kind the specification names for an absent proposal\<close>
  | Upstream string       \<comment> \<open>a rejected call, a revert, a decode or a type error\<close>

subsection \<open>Proposal count discovery (fetchProposalStats)\<close>

text \<open>
  \<open>getProposalState(id)\<close> resolves with the state number of an existing proposal and
  rejects for any other identifier. \<open>low\<close> and \<open>high\<close> are JavaScript numbers holding
  integers; \<open>high\<close> reaches \<open>-1\<close> when nothing exists, so they are \<open>int\<close>.
\<close>

type_synonym state_query = "int \<Rightarrow> error + int"

definition succeeds :: "error + 'a \<Rightarrow> bool" where
  "succeeds r = (case r of Inl _ \<Rightarrow> False | Inr _ \<Rightarrow> True)"

text \<open>
  \<^verbatim>\<open>
  while (low <= high) {
    const mid = Math.floor((low + high) / 2);
    try { await contracts.governance.getProposalState(mid); low = mid + 1; }
    catch (error) { high = mid - 1; }
  }
  totalProposals = high + 1;
  \<close>
  \<open>binarySearch\<close> is the loop and returns the final \<open>high\<close>.
\<close>

function binarySearch :: "state_query \<Rightarrow> int \<Rightarrow> int \<Rightarrow> int" where
  "binarySearch getProposalState low high =
     (if low \<le> high then
        (let mid = (low + high) div 2 in
         if succeeds (getProposalState mid)
         then binarySearch getProposalState (mid + 1) high
         else binarySearch getProposalState low (mid - 1))
      else high)"
  by pat_completeness auto
termination
  by (relation "measure (\<lambda>(g, low, high). nat (high + 1 - low))") auto

declare binarySearch.simps [simp del]

text \<open>
  What \<open>contracts.governance.getProposalCount\<close> is: not a function, a call that rejects
  (or whose answer \<open>toNumber\<close> refuses), or a call whose answer converts to a count.
\<close>

datatype direct_count = NoCountMethod | CountRejects error | Count int

text \<open>
  The first half of \<open>fetchProposalStats\<close>: \<open>totalProposals\<close> starts at 0, the direct
  accessor overwrites it when it is a function and resolves, and the binary search over
  \<open>[0, 1000]\<close> runs when \<open>totalProposals === 0\<close> after that.
\<close>

definition UPPER_BOUND :: int where
  "UPPER_BOUND = 1000"

definition directTotal :: "direct_count \<Rightarrow> int" where
  "directTotal d = (case d of NoCountMethod \<Rightarrow> 0 | CountRejects _ \<Rightarrow> 0 | Count c \<Rightarrow> c)"

definition totalProposals :: "direct_count \<Rightarrow> state_query \<Rightarrow> int" where
  "totalProposals d getProposalState =
     (if directTotal d = 0 then binarySearch getProposalState 0 UPPER_BOUND + 1
      else directTotal d)"

text \<open>
  The second half counts the active proposals:
  \<^verbatim>\<open>for (let i = 0; i < totalProposals; i++) { try { if (state === 0) activeProposals++ } catch {} }\<close>
\<close>

function countActive :: "state_query \<Rightarrow> int \<Rightarrow> int \<Rightarrow> int \<Rightarrow> int" where
  "countActive getProposalState totalCount i active =
     (if i < totalCount then
        countActive getProposalState totalCount (i + 1)
          (case getProposalState i of
             Inr st \<Rightarrow> (if st = 0 then active + 1 else active)
           | Inl _ \<Rightarrow> active)
      else active)"
  by pat_completeness auto
termination
  by (relation "measure (\<lambda>(g, totalCount, i, a). nat (totalCount - i))") auto

declare countActive.simps [simp del]

record proposal_stats =
  activeProposals :: int
  totalProposalsOf :: int

definition fetchProposalStats :: "direct_count \<Rightarrow> state_query \<Rightarrow> proposal_stats" where
  "fetchProposalStats d getProposalState =
     (let totalCount = totalProposals d getProposalState in
      \<lparr> activeProposals = countActive getProposalState totalCount 0 0,
        totalProposalsOf = totalCount \<rparr>)"

text \<open>
  The linear existence scan the specification compares with: probe 0, 1, 2, ... and stop
  at the first identifier that does not exist, never going past the upper bound.
\<close>

definition linearScan :: "state_query \<Rightarrow> int" where
  "linearScan getProposalState =
     int (length (takeWhile (\<lambda>i. succeeds (getProposalState i)) [0 .. UPPER_BOUND]))"

text \<open>A ledger holding exactly the proposals \<open>0, ..., n - 1\<close>, all in state \<open>st\<close>.\<close>

definition contiguousLedger :: "int \<Rightarrow> int \<Rightarrow> state_query" where
  "contiguousLedger n st = (\<lambda>i. if 0 \<le> i \<and> i < n then Inr st else Inl (Upstream ''revert''))"

subsection \<open>Addresses and the distinct-voter set\<close>

type_synonym address = string

text \<open>
  \<open>String.prototype.toLowerCase\<close> on the characters an address is written with: the
  upper-case letters map to their lower-case forms, every other character stays.
\<close>

definition toLowerChar :: "char \<Rightarrow> char" where
  "toLowerChar c =
     (case map_of (zip ''ABCDEFGHIJKLMNOPQRSTUVWXYZ'' ''abcdefghijklmnopqrstuvwxyz'') c of
        Some l \<Rightarrow> l
      | None \<Rightarrow> c)"

definition toLowerCase :: "string \<Rightarrow> string" where
  "toLowerCase s = map toLowerChar s"

text \<open>
  \<open>new Set()\<close> with \<open>add\<close>, \<open>has\<close> and \<open>size\<close>: a JavaScript set keeps its members in
  insertion order and ignores a member it already holds.
\<close>

definition setAdd :: "'a \<Rightarrow> 'a list \<Rightarrow> 'a list" where
  "setAdd x xs = (if x \<in> set xs then xs else xs @ [x])"

definition setHas :: "'a list \<Rightarrow> 'a \<Rightarrow> bool" where
  "setHas xs x = (x \<in> set xs)"

text \<open>A JavaScript string is truthy unless it is empty; \<open>null\<close>/\<open>undefined\<close> is \<open>None\<close>.\<close>

definition truthyAccount :: "address option \<Rightarrow> bool" where
  "truthyAccount a = (case a of None \<Rightarrow> False | Some s \<Rightarrow> s \<noteq> [])"

subsection \<open>Replaying the vote-cast logs (getProposalVoteTotals, the loop)\<close>

text \<open>
  A log of \<open>provider.getLogs\<close> either decodes to the arguments of
  \<open>VoteCast(proposalId, voter, support, votingPower)\<close> or makes \<open>parseLog\<close> throw.
  \<open>support\<close> is a \<open>uint8\<close> and \<open>votingPower\<close> a \<open>uint256\<close>, held as naturals.
\<close>

datatype raw_log = Unparsable | VoteCast address nat nat

text \<open>
  ethers decodes a \<open>uint256\<close> to a BigNumber, so the loop takes the first branch of
  its format handling, \<open>votingPower.toNumber()\<close>, which throws when the value does not
  fit a safe JavaScript integer. The sums of the loop are JavaScript numbers; they are
  modelled exactly, which is what the source computes as long as a sum stays below
  \<open>2^53\<close>.
\<close>

definition MAX_SAFE_INTEGER :: nat where
  "MAX_SAFE_INTEGER = 9007199254740991"

definition toNumber :: "nat \<Rightarrow> error + nat" where
  "toNumber v = (if v \<le> MAX_SAFE_INTEGER then Inr v else Inl (Upstream ''overflow''))"

text \<open>The loop variables \<open>yesVotes\<close>, \<open>noVotes\<close>, \<open>abstainVotes\<close> and \<open>voters\<close>.\<close>

record tally =
  yes :: nat
  no :: nat
  abstain :: nat
  voters :: "address list"

definition emptyTally :: tally where
  "emptyTally = \<lparr> yes = 0, no = 0, abstain = 0, voters = [] \<rparr>"

text \<open>
  \<^verbatim>\<open>
  if (support === 0) noVotes += votingPower;
  else if (support === 1) yesVotes += votingPower;
  else if (support === 2) abstainVotes += votingPower;
  \<close>
\<close>

definition addWeight :: "nat \<Rightarrow> nat \<Rightarrow> tally \<Rightarrow> tally" where
  "addWeight support votingPower t =
     (if support = 0 then t\<lparr> no := no t + votingPower \<rparr>
      else if support = 1 then t\<lparr> yes := yes t + votingPower \<rparr>
      else if support = 2 then t\<lparr> abstain := abstain t + votingPower \<rparr>
      else t)"

text \<open>
  One iteration of \<open>for (const log of logs)\<close>. Both \<open>parseLog\<close> and \<open>toNumber\<close> run
  before \<open>voters.add(voter)\<close>, so a log on which either throws leaves the variables as
  they were (the \<open>catch\<close> only warns).
\<close>

definition processLog :: "tally \<Rightarrow> raw_log \<Rightarrow> tally" where
  "processLog t l =
     (case l of
        Unparsable \<Rightarrow> t
      | VoteCast voter support weight \<Rightarrow>
          (case toNumber weight of
             Inl _ \<Rightarrow> t
           | Inr votingPower \<Rightarrow>
               addWeight support votingPower
                 (t\<lparr> voters := setAdd (toLowerCase voter) (voters t) \<rparr>)))"

definition processLogs :: "raw_log list \<Rightarrow> tally" where
  "processLogs logs = foldl processLog emptyTally logs"

subsection \<open>The environment of useVoting\<close>

text \<open>
  What \<open>useWeb3()\<close> hands to the hook, and what each remote call answers.
  \<open>formatEther\<close> is ethers' decimal rendering of a wei amount; it belongs to the library
  and is a parameter here.
\<close>

record receipt =
  transactionHash :: string
  blockNumber :: nat

record voting_env =
  isConnected :: bool
  contractsReady :: bool
  account :: "address option"
  governance :: bool      \<comment> \<open>\<open>contracts.governance\<close> is set\<close>
  provider :: bool        \<comment> \<open>\<open>contracts.governance.provider\<close> is set\<close>
  token :: bool           \<comment> \<open>\<open>contracts.token\<close> is set\<close>
  getProposalState :: state_query
  getLogs :: "int \<Rightarrow> error + raw_log list"
    \<comment> \<open>\<open>provider.getLogs\<close> with the VoteCast topic and the proposal identifier\<close>
  proposalVoterInfo :: "int \<Rightarrow> address \<Rightarrow> error + nat"
  queryVoteCast :: "int \<Rightarrow> address \<Rightarrow> error + nat list"
    \<comment> \<open>\<open>queryFilter(filters.VoteCast(proposalId, account))\<close>: the \<open>support\<close> of each event\<close>
  queryProposalEvent :: "int \<Rightarrow> error + (error + nat) list"
    \<comment> \<open>the creation events of a proposal, each with what decoding its snapshot id gives\<close>
  getCurrentSnapshotId :: "error + nat"
  getEffectiveVotingPower :: "address \<Rightarrow> nat \<Rightarrow> error + nat"
  submitCastVote :: "int \<Rightarrow> int \<Rightarrow> error + receipt"
    \<comment> \<open>\<open>contracts.governance.castVote(...)\<close> followed by \<open>tx.wait()\<close>\<close>
  formatEther :: "nat \<Rightarrow> string"

subsection \<open>getProposalVoteTotals\<close>

text \<open>
  The returned object. The two early returns of the source build an object without the
  three percentage fields, so a percentage is optional: \<open>None\<close> is a missing field.
  Percentages are exact rationals.
\<close>

record vote_totals =
  yesVotes :: nat
  noVotes :: nat
  abstainVotes :: nat
  totalVotes :: nat
  totalVoters :: nat
  yesPercentage :: "rat option"
  noPercentage :: "rat option"
  abstainPercentage :: "rat option"

text \<open>\<open>{ yesVotes: 0, noVotes: 0, abstainVotes: 0, totalVotes: 0, totalVoters: 0 }\<close>\<close>

definition zeroTotalsShort :: vote_totals where
  "zeroTotalsShort =
     \<lparr> yesVotes = 0, noVotes = 0, abstainVotes = 0, totalVotes = 0, totalVoters = 0,
       yesPercentage = None, noPercentage = None, abstainPercentage = None \<rparr>"

text \<open>The object of the outer \<open>catch\<close>, which has the percentage fields, all zero.\<close>

definition zeroTotalsFull :: vote_totals where
  "zeroTotalsFull =
     \<lparr> yesVotes = 0, noVotes = 0, abstainVotes = 0, totalVotes = 0, totalVoters = 0,
       yesPercentage = Some 0, noPercentage = Some 0, abstainPercentage = Some 0 \<rparr>"

text \<open>
  Step 2 of the source, the vote of the connected account:
  \<^verbatim>\<open>
  if (account) { try {
    const voterInfo = await contracts.governance.proposalVoterInfo(proposalId, account);
    if (!voterInfo.isZero()) {
      const userEvents = await contracts.governance.queryFilter(userFilter);
      if (userEvents.length > 0) {
        const support = Number(userEvents[userEvents.length - 1].args.support);
        if (!voters.has(account.toLowerCase())) {
          voters.add(account.toLowerCase());
          votingPower = voterInfo.toNumber();
          ... add votingPower to the bucket of support ...
  } } } } catch (error) { console.warn(...) } }
  \<close>
  \<open>toNumber\<close> runs after \<open>voters.add\<close>: when it throws, the voter stays in the set and no
  weight is added.
\<close>

definition accountVote :: "voting_env \<Rightarrow> int \<Rightarrow> tally \<Rightarrow> tally" where
  "accountVote env proposalId t =
     (case account env of
        None \<Rightarrow> t
      | Some acct \<Rightarrow>
          if acct = [] then t
          else
            (case proposalVoterInfo env proposalId acct of
               Inl _ \<Rightarrow> t
             | Inr voterInfo \<Rightarrow>
                 if voterInfo = 0 then t
                 else
                   (case queryVoteCast env proposalId acct of
                      Inl _ \<Rightarrow> t
                    | Inr userEvents \<Rightarrow>
                        if userEvents = [] then t
                        else
                          (let support = last userEvents in
                           if setHas (voters t) (toLowerCase acct) then t
                           else
                             (let t' = t\<lparr> voters := setAdd (toLowerCase acct) (voters t) \<rparr> in
                              case toNumber voterInfo of
                                Inl _ \<Rightarrow> t'
                              | Inr votingPower \<Rightarrow> addWeight support votingPower t')))))"

text \<open>
  The end of the \<open>try\<close> block: totals, then the percentages, which stay 0 unless
  \<open>totalVotes > 0\<close>.
\<close>

definition percentageOf :: "nat \<Rightarrow> nat \<Rightarrow> rat" where
  "percentageOf votes totalV = (if totalV > 0 then (of_nat votes / of_nat totalV) * 100 else 0)"

definition finishTotals :: "tally \<Rightarrow> vote_totals" where
  "finishTotals t =
     (let totalV = yes t + no t + abstain t in
      \<lparr> yesVotes = yes t, noVotes = no t, abstainVotes = abstain t,
        totalVotes = totalV, totalVoters = length (voters t),
        yesPercentage = Some (percentageOf (yes t) totalV),
        noPercentage = Some (percentageOf (no t) totalV),
        abstainPercentage = Some (percentageOf (abstain t) totalV) \<rparr>)"

text \<open>
  The body of the outer \<open>try\<close>. The state query has a \<open>try\<close>/\<open>catch\<close> of its own, which
  returns the short zero object; a rejected \<open>getLogs\<close> is the only throw that reaches the
  outer \<open>catch\<close>.
\<close>

definition voteTotalsBody :: "voting_env \<Rightarrow> int \<Rightarrow> error + vote_totals" where
  "voteTotalsBody env proposalId =
     (if \<not> governance env \<or> \<not> provider env then Inr zeroTotalsShort
      else
        (case getProposalState env proposalId of
           Inl _ \<Rightarrow> Inr zeroTotalsShort
         | Inr _ \<Rightarrow>
             (case getLogs env proposalId of
                Inl e \<Rightarrow> Inl e
              | Inr logs \<Rightarrow>
                  Inr (finishTotals (accountVote env proposalId (processLogs logs))))))"

definition getProposalVoteTotals :: "voting_env \<Rightarrow> int \<Rightarrow> error + vote_totals" where
  "getProposalVoteTotals env proposalId =
     (case voteTotalsBody env proposalId of
        Inl _ \<Rightarrow> Inr zeroTotalsFull
      | Inr r \<Rightarrow> Inr r)"

subsection \<open>The read-path queries hasVoted, getVotingPower, getVoteDetails\<close>

text \<open>
  \<open>hasVoted\<close>: \<open>false\<close> without a connection, an account or the governance contract;
  otherwise \<open>!voterInfo.isZero()\<close>, and \<open>false\<close> when the call rejects.
\<close>

definition hasVotedBody :: "voting_env \<Rightarrow> int \<Rightarrow> error + bool" where
  "hasVotedBody env proposalId =
     (case account env of
        None \<Rightarrow> Inl (Upstream ''invalid address'')
      | Some acct \<Rightarrow>
          (case proposalVoterInfo env proposalId acct of
             Inl e \<Rightarrow> Inl e
           | Inr voterInfo \<Rightarrow> Inr (voterInfo \<noteq> 0)))"

definition hasVoted :: "voting_env \<Rightarrow> int \<Rightarrow> error + bool" where
  "hasVoted env proposalId =
     (if \<not> isConnected env \<or> \<not> contractsReady env \<or> \<not> truthyAccount (account env)
      then Inr False
      else if \<not> governance env then Inr False
      else (case hasVotedBody env proposalId of Inl _ \<Rightarrow> Inr False | Inr b \<Rightarrow> Inr b))"







subsection \<open>castVote\<close>

text \<open>
  \<open>getProposalSnapshotId\<close>: the snapshot id decoded from the first creation event; when
  there is no event, the decoding throws or the event query rejects, the current
  snapshot id; and 0 when that call rejects as well. A call answers the same way each
  time it is made within one run.
\<close>

definition getProposalSnapshotId :: "voting_env \<Rightarrow> int \<Rightarrow> nat" where
  "getProposalSnapshotId env proposalId =
     (if \<not> governance env then 0
      else
        (let current = (case getCurrentSnapshotId env of Inl _ \<Rightarrow> 0 | Inr s \<Rightarrow> s) in
         case queryProposalEvent env proposalId of
           Inl _ \<Rightarrow> current
         | Inr events \<Rightarrow>
             (case events of
                [] \<Rightarrow> current
              | creationEvent # _ \<Rightarrow>
                  (case creationEvent of Inl _ \<Rightarrow> current | Inr snapshotId \<Rightarrow> snapshotId))))"

text \<open>
  The vote types of \<open>utils/constants\<close>, a file that is not among the sources: the values
  are the ones the error message of \<open>castVote\<close> spells out, "Must be 0 (Against), 1 (For),
  or 2 (Abstain)", and the ones the tally loop tests \<open>support\<close> against.
\<close>

definition VOTE_TYPES_AGAINST :: int where "VOTE_TYPES_AGAINST = 0"
definition VOTE_TYPES_FOR :: int where "VOTE_TYPES_FOR = 1"
definition VOTE_TYPES_ABSTAIN :: int where "VOTE_TYPES_ABSTAIN = 2"

text \<open>The state of the hook, \<open>{loading, error, success, lastVotedProposalId}\<close>.\<close>

record voting_state =
  loading :: bool
  errorOf :: "error option"
  success :: bool
  lastVotedProposalId :: "int option"

text \<open>
  What a run does to the world outside, in the order it does it: a write of the hook's
  state, the submission of a vote transaction to the ledger, a write of the local
  \<open>votedProposals\<close> of the vote tab, an alert.
\<close>

datatype effect =
    SetVoting voting_state
  | SubmitVote int int
  | SetVotedProposals "int \<Rightarrow> int option"
  | Alert error

record cast_result =
  successField :: bool
  votingPowerOf :: string
  voteTypeOf :: int
  transactionHashOf :: string

text \<open>
  The voting power \<open>castVote\<close> checks: \<open>getEffectiveVotingPower(account, snapshotId)\<close> at
  the snapshot of the proposal. \<open>account\<close> is passed to ethers as it is; without an
  account, or without the token contract, the call throws.
\<close>

definition resolveVotingPower :: "voting_env \<Rightarrow> int \<Rightarrow> error + nat" where
  "resolveVotingPower env proposalId =
     (let snapshotId = getProposalSnapshotId env proposalId in
      if \<not> token env then Inl (Upstream ''TypeError'')
      else
        (case account env of
           None \<Rightarrow> Inl (Upstream ''invalid address'')
         | Some acct \<Rightarrow> getEffectiveVotingPower env acct snapshotId))"

text \<open>
  The \<open>try\<close> block of \<open>castVote\<close> after the first \<open>setVoting\<close>: the four validations in
  the order of the source, then the submission. Every \<open>throw\<close> and every rejected call
  ends the block with \<open>Inl\<close>; the second component lists the effects so far. The check of
  the vote event after the receipt only logs.
\<close>

definition castVoteBody :: "voting_env \<Rightarrow> int \<Rightarrow> int \<Rightarrow> (error + cast_result) \<times> effect list" where
  "castVoteBody env proposalId voteType =
     (if voteType \<notin> set [VOTE_TYPES_AGAINST, VOTE_TYPES_FOR, VOTE_TYPES_ABSTAIN]
      then (Inl InvalidVoteType, [])
      else
        (case getProposalState env proposalId of
           Inl e \<Rightarrow> (Inl e, [])
         | Inr proposalState \<Rightarrow>
             if proposalState \<noteq> 0 then (Inl InactiveProposal, [])
             else
               (case hasVoted env proposalId of
                  Inl e \<Rightarrow> (Inl e, [])
                | Inr hasAlreadyVoted \<Rightarrow>
                    if hasAlreadyVoted then (Inl AlreadyVoted, [])
                    else
                      (case resolveVotingPower env proposalId of
                         Inl e \<Rightarrow> (Inl e, [])
                       | Inr votingPower \<Rightarrow>
                           if votingPower = 0 then (Inl NoVotingPower, [])
                           else
                             (case submitCastVote env proposalId voteType of
                                Inl e \<Rightarrow> (Inl e, [SubmitVote proposalId voteType])
                              | Inr rcpt \<Rightarrow>
                                  (Inr \<lparr> successField = True,
                                         votingPowerOf = formatEther env votingPower,
                                         voteTypeOf = voteType,
                                         transactionHashOf = transactionHash rcpt \<rparr>,
                                   [SubmitVote proposalId voteType]))))))"

text \<open>
  \<open>castVote\<close>: the two guards throw before the \<open>try\<close>; inside it the hook's state is set
  to loading first, and to success or to the error at the end, and the \<open>catch\<close> rethrows.
\<close>

definition castVote :: "voting_env \<Rightarrow> int \<Rightarrow> int \<Rightarrow> (error + cast_result) \<times> effect list" where
  "castVote env proposalId voteType =
     (if \<not> isConnected env \<or> \<not> contractsReady env then (Inl NotConnected, [])
      else if \<not> governance env then (Inl NotInitialized, [])
      else
        (let start = SetVoting \<lparr> loading = True, errorOf = None, success = False,
                                lastVotedProposalId = None \<rparr> in
         case castVoteBody env proposalId voteType of
           (Inl err, effects) \<Rightarrow>
             (Inl err,
              start # effects @
                [SetVoting \<lparr> loading = False, errorOf = Some err, success = False,
                             lastVotedProposalId = None \<rparr>])
         | (Inr res, effects) \<Rightarrow>
             (Inr res,
              start # effects @
                [SetVoting \<lparr> loading = False, errorOf = None, success = True,
                             lastVotedProposalId = Some proposalId \<rparr>])))"

text \<open>The ledger submissions among the effects of a run.\<close>

definition submissions :: "effect list \<Rightarrow> (int \<times> int) list" where
  "submissions effects =
     concat (map (\<lambda>e. case e of SubmitVote p v \<Rightarrow> [(p, v)] | _ \<Rightarrow> []) effects)"

subsection \<open>submitVote of the vote tab\<close>

text \<open>
  \<^verbatim>\<open>
  const submitVote = async (proposalId, support) => {
    try {
      const newVotedProposals = {...votedProposals};
      newVotedProposals[proposalId] = support;
      setVotedProposals(newVotedProposals);
      await castVote(proposalId, support);
    } catch (error) {
      alert(...);
      const newVotedProposals = {...votedProposals};
      delete newVotedProposals[proposalId];
      setVotedProposals(newVotedProposals);
    }
  };
  \<close>
  \<open>votedProposals\<close> is the value the component was rendered with; both copies start from
  it. The result is the list of effects of the run, in order.
\<close>

definition submitVote ::
  "voting_env \<Rightarrow> (int \<Rightarrow> int option) \<Rightarrow> int \<Rightarrow> int \<Rightarrow> effect list" where
  "submitVote env votedProposals proposalId support =
     (let recorded = SetVotedProposals (votedProposals(proposalId \<mapsto> support)) in
      case castVote env proposalId support of
        (Inr _, effects) \<Rightarrow> recorded # effects
      | (Inl err, effects) \<Rightarrow>
          recorded # effects @
            [Alert err, SetVotedProposals (votedProposals(proposalId := None))])"

text \<open>
  The local \<open>votedProposals\<close> after a list of effects: the value of the last
  \<open>setVotedProposals\<close>, or the starting value when there is none.
\<close>

definition votedAfter :: "(int \<Rightarrow> int option) \<Rightarrow> effect list \<Rightarrow> (int \<Rightarrow> int option)" where
  "votedAfter votedProposals effects =
     foldl (\<lambda>m e. case e of SetVotedProposals m' \<Rightarrow> m' | _ \<Rightarrow> m) votedProposals effects"

text \<open>
  The locally observed state of a proposal: \<open>votedProposals[id] !== undefined\<close> is a
  recorded (pending or confirmed) vote, \<open>undefined\<close> is unvoted.
\<close>

datatype local_vote = Unvoted | PendingLocal int

definition localState :: "(int \<Rightarrow> int option) \<Rightarrow> int \<Rightarrow> local_vote" where
  "localState votedProposals proposalId =
     (case votedProposals proposalId of None \<Rightarrow> Unvoted | Some s \<Rightarrow> PendingLocal s)"

subsection \<open>calculateVotePercentages of the vote tab\<close>

text \<open>
  A JavaScript number that is either \<open>NaN\<close> or a rational; the arithmetic on it is exact
  (rounding of doubles and the infinities are left out).
\<close>

datatype jsnum = NaN | Num rat

text \<open>\<open>parseFloat(x) || 0\<close>: \<open>NaN\<close> and 0 are falsy and give 0.\<close>

definition orZero :: "jsnum \<Rightarrow> rat" where
  "orZero x = (case x of NaN \<Rightarrow> 0 | Num q \<Rightarrow> q)"

record vote_percentages =
  yesVotesShown :: rat
  noVotesShown :: rat
  abstainVotesShown :: rat
  totalVotesShown :: rat
  yesPercentageShown :: rat
  noPercentageShown :: rat
  abstainPercentageShown :: rat

text \<open>
  The three arguments are what \<open>parseFloat\<close> gives for \<open>proposal.yesVotes\<close>,
  \<open>proposal.noVotes\<close> and \<open>proposal.abstainVotes\<close>.
\<close>

definition calculateVotePercentages :: "jsnum \<Rightarrow> jsnum \<Rightarrow> jsnum \<Rightarrow> vote_percentages" where
  "calculateVotePercentages parsedYes parsedNo parsedAbstain =
     (let y = orZero parsedYes; n = orZero parsedNo; a = orZero parsedAbstain;
          totalV = y + n + a
      in \<lparr> yesVotesShown = y, noVotesShown = n, abstainVotesShown = a,
           totalVotesShown = totalV,
           yesPercentageShown = (if totalV > 0 then (y / totalV) * 100 else 0),
           noPercentageShown = (if totalV > 0 then (n / totalV) * 100 else 0),
           abstainPercentageShown = (if totalV > 0 then (a / totalV) * 100 else 0) \<rparr>)"

subsection \<open>fetchGovernanceMetrics of useDAOStats\<close>

text \<open>
  A field of a contract answer, by what the source asks of it: whether it is truthy,
  whether it has a \<open>toNumber\<close> function and what that returns or throws, and what
  \<open>toString()\<close> gives. \<open>Undefined\<close> is a field that is \<open>undefined\<close> or \<open>null\<close>.
\<close>

datatype field = Undefined | Field bool "(error + jsnum) option" string

definition truthy :: "field \<Rightarrow> bool" where
  "truthy f = (case f of Undefined \<Rightarrow> False | Field t _ _ \<Rightarrow> t)"

record proposal_analytics =
  avgVotingTurnout :: field
  generalSuccessRate :: field

record token_analytics =
  percentageDelegated :: field

text \<open>
  The answer of \<open>getSnapshotMetrics\<close>: its field \<open>percentageDelegated\<close> when it is an
  object, and its elements when it is an array (none otherwise).
\<close>

record snapshot_metrics =
  percentageDelegatedOf :: field
  elements :: "field list"

text \<open>
  The environment of \<open>fetchGovernanceMetrics\<close>. An answer \<open>None\<close> is a falsy one.
  \<open>parseInt\<close> is the JavaScript builtin, a parameter here.
\<close>

record stats_env =
  analyticsHelper :: bool
  getProposalAnalytics :: "error + proposal_analytics option"
  getTokenDistributionAnalytics :: "error + token_analytics option"
  tokenCurrentSnapshotId :: "error + nat"
  getSnapshotMetrics :: "nat \<Rightarrow> error + snapshot_metrics option"
  parseInt :: "string \<Rightarrow> jsnum"

record rates =
  participationRate :: jsnum
  delegationRate :: jsnum
  proposalSuccessRate :: jsnum

definition divNum :: "jsnum \<Rightarrow> rat \<Rightarrow> jsnum" where
  "divNum x c = (case x of NaN \<Rightarrow> NaN | Num q \<Rightarrow> Num (q / c))"

text \<open>
  \<^verbatim>\<open>typeof x?.toNumber === 'function' ? x.toNumber() : parseInt(x?.toString() || '0')\<close>
\<close>

definition fieldNumber :: "stats_env \<Rightarrow> field \<Rightarrow> error + jsnum" where
  "fieldNumber env f =
     (case f of
        Undefined \<Rightarrow> Inr (parseInt env ''0'')
      | Field _ toNum str \<Rightarrow>
          (case toNum of
             Some r \<Rightarrow> r
           | None \<Rightarrow> Inr (parseInt env (if str = [] then ''0'' else str))))"

text \<open>
  The statements under \<open>if (proposalAnalytics)\<close>. A throw leaves the block with the
  variables as assigned so far: \<open>Inl\<close> carries them to the \<open>catch\<close>.
\<close>

definition proposalPart :: "stats_env \<Rightarrow> proposal_analytics \<Rightarrow> rates \<Rightarrow> rates + rates" where
  "proposalPart env pa r =
     (case fieldNumber env (avgVotingTurnout pa) of
        Inl _ \<Rightarrow> Inl r
      | Inr v \<Rightarrow>
          (let r1 = r\<lparr> participationRate := divNum v 10000 \<rparr> in
           if truthy (generalSuccessRate pa) then
             (case fieldNumber env (generalSuccessRate pa) of
                Inl _ \<Rightarrow> Inl r1
              | Inr s \<Rightarrow> Inr (r1\<lparr> proposalSuccessRate := divNum s 100 \<rparr>))
           else Inr r1))"

definition tokenPart :: "stats_env \<Rightarrow> rates \<Rightarrow> rates" where
  "tokenPart env r =
     (case getTokenDistributionAnalytics env of
        Inl _ \<Rightarrow> r
      | Inr None \<Rightarrow> r
      | Inr (Some ta) \<Rightarrow>
          if truthy (percentageDelegated ta) then
            (case fieldNumber env (percentageDelegated ta) of
               Inl _ \<Rightarrow> r
             | Inr v \<Rightarrow> r\<lparr> delegationRate := divNum v 10000 \<rparr>)
          else r)"

text \<open>The \<open>try\<close> block under \<open>if (contracts.analyticsHelper)\<close>, with its \<open>catch\<close>.\<close>

definition analyticsBlock :: "stats_env \<Rightarrow> rates \<Rightarrow> rates" where
  "analyticsBlock env r =
     (case getProposalAnalytics env of
        Inl _ \<Rightarrow> r
      | Inr pa \<Rightarrow>
          (case (case pa of None \<Rightarrow> Inr r | Some a \<Rightarrow> proposalPart env a r) of
             Inl r' \<Rightarrow> r'
           | Inr r1 \<Rightarrow> tokenPart env r1))"

text \<open>
  The block under \<open>if (delegationRate === 0)\<close>: the delegation rate of the current
  snapshot, from the field \<open>percentageDelegated\<close> or from the fifth element of an array.
  \<open>metrics[4].toString()\<close> throws on an undefined element.
\<close>

definition snapshotBlock :: "stats_env \<Rightarrow> rates \<Rightarrow> rates" where
  "snapshotBlock env r =
     (if delegationRate r = Num 0 then
        (case tokenCurrentSnapshotId env of
           Inl _ \<Rightarrow> r
         | Inr snapshotId \<Rightarrow>
             if snapshotId \<noteq> 0 then
               (case getSnapshotMetrics env snapshotId of
                  Inl _ \<Rightarrow> r
                | Inr None \<Rightarrow> r
                | Inr (Some metrics) \<Rightarrow>
                    (case percentageDelegatedOf metrics of
                       Field True _ str \<Rightarrow> r\<lparr> delegationRate := divNum (parseInt env str) 10000 \<rparr>
                     | _ \<Rightarrow>
                         if length (elements metrics) \<ge> 5 then
                           (case elements metrics ! 4 of
                              Undefined \<Rightarrow> r
                            | Field _ _ str \<Rightarrow>
                                r\<lparr> delegationRate := divNum (parseInt env str) 10000 \<rparr>)
                         else r))
             else r)
      else r)"

text \<open>
  The rates before the final checks: the defaults 0.27, 0.38 and 0.73, overwritten by
  what the analytics helper and the snapshot give.
\<close>

definition defaultRates :: rates where
  "defaultRates =
     \<lparr> participationRate = Num (27 / 100), delegationRate = Num (38 / 100),
       proposalSuccessRate = Num (73 / 100) \<rparr>"

definition gatherRates :: "stats_env \<Rightarrow> rates" where
  "gatherRates env =
     snapshotBlock env (if analyticsHelper env then analyticsBlock env defaultRates else defaultRates)"

text \<open>
  \<open>x <= 0.01 || x > 1\<close>; every comparison with \<open>NaN\<close> is false.
\<close>

definition implausible :: "jsnum \<Rightarrow> bool" where
  "implausible x = (case x of NaN \<Rightarrow> False | Num q \<Rightarrow> q \<le> 1 / 100 \<or> q > 1)"

definition isNaN :: "jsnum \<Rightarrow> bool" where
  "isNaN x = (case x of NaN \<Rightarrow> True | Num _ \<Rightarrow> False)"

text \<open>
  \<^verbatim>\<open>
  if (rate <= 0.01 || rate > 1) rate = fallback;
  return { rate: isNaN(rate) ? fallback : rate };
  \<close>
\<close>

definition checkedRate :: "rat \<Rightarrow> jsnum \<Rightarrow> jsnum" where
  "checkedRate fallback x =
     (let x1 = (if implausible x then Num fallback else x)
      in if isNaN x1 then Num fallback else x1)"

definition fetchGovernanceMetrics :: "stats_env \<Rightarrow> rates" where
  "fetchGovernanceMetrics env =
     (let r = gatherRates env in
      \<lparr> participationRate = checkedRate (27 / 100) (participationRate r),
        delegationRate = checkedRate (38 / 100) (delegationRate r),
        proposalSuccessRate = checkedRate (73 / 100) (proposalSuccessRate r) \<rparr>)"

subsection \<open>What the log loop counts\<close>

text \<open>
  The events the loop of \<open>getProposalVoteTotals\<close> gets through: the logs that parse and
  whose weight \<open>toNumber\<close> accepts, as (voter, support, weight), in log order.
\<close>

definition countedVotes :: "raw_log list \<Rightarrow> (address \<times> nat \<times> nat) list" where
  "countedVotes logs =
     concat (map (\<lambda>l. case l of
                        Unparsable \<Rightarrow> []
                      | VoteCast v s w \<Rightarrow> if w \<le> MAX_SAFE_INTEGER then [(v, s, w)] else [])
                 logs)"

definition countedVoters :: "raw_log list \<Rightarrow> address list" where
  "countedVoters logs = map fst (countedVotes logs)"

text \<open>The sum of the weights of all counted events with a given support.\<close>

definition weightFor :: "nat \<Rightarrow> raw_log list \<Rightarrow> nat" where
  "weightFor s logs = sum_list (map (\<lambda>(v, s', w). if s' = s then w else 0) (countedVotes logs))"

subsection \<open>Sample environments\<close>

text \<open>
  The samples' stand-in for ethers' \<open>formatEther\<close>: it only tells a zero amount from a
  positive one.
\<close>

definition sampleFormat :: "nat \<Rightarrow> string" where
  "sampleFormat wei = (if wei = 0 then ''0.0'' else ''positive'')"

text \<open>
  A connected session without an account on a ledger holding the proposals 0 to 7, all
  active, with no vote cast. The snapshot of every proposal is the current one, 1; nobody
  has voting power; a submitted vote reverts.
\<close>

definition sampleEnv :: voting_env where
  "sampleEnv =
     \<lparr> isConnected = True, contractsReady = True, account = None,
       governance = True, provider = True, token = True,
       getProposalState = contiguousLedger 8 0,
       getLogs = (\<lambda>_. Inr []),
       proposalVoterInfo = (\<lambda>_ _. Inr 0),
       queryVoteCast = (\<lambda>_ _. Inr []),
       queryProposalEvent = (\<lambda>_. Inr []),
       getCurrentSnapshotId = Inr 1,
       getEffectiveVotingPower = (\<lambda>_ _. Inr 0),
       submitCastVote = (\<lambda>_ _. Inl (Upstream ''revert'')),
       formatEther = sampleFormat \<rparr>"

text \<open>
  The scenario of the specification: the logs of proposal 7 are
  (A, For, 100), (B, Against, 50), (A, For, 100).
\<close>

definition duplicateLogs :: "raw_log list" where
  "duplicateLogs = [VoteCast ''0xA'' 1 100, VoteCast ''0xB'' 0 50, VoteCast ''0xA'' 1 100]"

definition duplicateEnv :: voting_env where
  "duplicateEnv = sampleEnv\<lparr> getLogs := (\<lambda>p. if p = 7 then Inr duplicateLogs else Inr []) \<rparr>"

text \<open>
  The account 0xA is connected. The logs of proposal 7 hold its vote (For, 100); the
  direct queries say it voted Against with weight 70.
\<close>

definition disagreeEnv :: voting_env where
  "disagreeEnv =
     sampleEnv\<lparr> account := Some ''0xA'',
                getLogs := (\<lambda>_. Inr [VoteCast ''0xA'' 1 100]),
                proposalVoterInfo := (\<lambda>_ _. Inr 70),
                queryVoteCast := (\<lambda>_ _. Inr [0]) \<rparr>"

text \<open>
  The account 0xC is connected and its vote (Abstain, 30) on proposal 7 is missing from
  the logs, which hold one vote of 0xB (Against, 50).
\<close>

definition missingEnv :: voting_env where
  "missingEnv =
     sampleEnv\<lparr> account := Some ''0xC'',
                getLogs := (\<lambda>_. Inr [VoteCast ''0xB'' 0 50]),
                proposalVoterInfo := (\<lambda>_ _. Inr 30),
                queryVoteCast := (\<lambda>_ _. Inr [2]) \<rparr>"

text \<open>
  The account 0xA is connected. The only log of proposal 7 is its vote (For) with a
  weight of \<open>10^18\<close>, which \<open>toNumber\<close> refuses, so the loop drops the log before the
  voter is added; the direct queries say it voted Against with weight 70.
\<close>

definition overflowEnv :: voting_env where
  "overflowEnv =
     sampleEnv\<lparr> account := Some ''0xA'',
                getLogs := (\<lambda>_. Inr [VoteCast ''0xA'' 1 1000000000000000000]),
                proposalVoterInfo := (\<lambda>_ _. Inr 70),
                queryVoteCast := (\<lambda>_ _. Inr [0]) \<rparr>"


text \<open>
  The account 0xA is connected. Proposal 7 is active and open to it with voting power
  \<open>10^18\<close> at snapshot 1 and power 0 at any other snapshot; proposal 8 has state 1;
  the account has voted on proposal 6 with weight 5; proposal 5 was created at
  snapshot 3. Any submitted vote reverts.
\<close>

definition voterEnv :: voting_env where
  "voterEnv =
     sampleEnv\<lparr> account := Some ''0xA'',
                getProposalState := (\<lambda>p. if p = 8 then Inr 1 else contiguousLedger 8 0 p),
                proposalVoterInfo := (\<lambda>p _. if p = 6 then Inr 5 else Inr 0),
                queryVoteCast := (\<lambda>_ _. Inl (Upstream ''timeout'')),
                queryProposalEvent := (\<lambda>p. if p = 5 then Inr [Inr 3] else Inr []),
                getEffectiveVotingPower := (\<lambda>_ s. if s = 1 then Inr (10 ^ 18) else Inr 0) \<rparr>"

text \<open>The same session on a ledger that confirms the vote.\<close>

definition confirmingEnv :: voting_env where
  "confirmingEnv =
     voterEnv\<lparr> submitCastVote :=
                  (\<lambda>_ _. Inr \<lparr> transactionHash = ''0xfeed'', blockNumber = 12 \<rparr>) \<rparr>"

text \<open>
  An analytics helper that reports a turnout of 4500 basis points, a success rate of
  250 percent and 0 delegated, on a token whose current snapshot id is 0.
\<close>

definition bigNumber :: "int \<Rightarrow> field" where
  "bigNumber n = Field True (Some (Inr (Num (of_int n)))) ''''"

definition sampleStats :: stats_env where
  "sampleStats =
     \<lparr> analyticsHelper = True,
       getProposalAnalytics =
         Inr (Some \<lparr> avgVotingTurnout = bigNumber 4500, generalSuccessRate = bigNumber 250 \<rparr>),
       getTokenDistributionAnalytics = Inr (Some \<lparr> percentageDelegated = bigNumber 0 \<rparr>),
       tokenCurrentSnapshotId = Inr 0,
       getSnapshotMetrics = (\<lambda>_. Inl (Upstream ''revert'')),
       parseInt = (\<lambda>_. NaN) \<rparr>"

subsection \<open>Lemmas on the binary search\<close>

lemma binarySearch_contiguous:
  assumes "\<And>i. low \<le> i \<Longrightarrow> i \<le> high \<Longrightarrow> succeeds (g i) = (i < n)"
    and "low \<le> n" and "n \<le> high + 1"
  shows "binarySearch g low high = n - 1"
  using assms
proof (induction g low high rule: binarySearch.induct)
  case (1 g low high)
  show ?case
  proof (cases "low \<le> high")
    case False
    with "1.prems" have "high = n - 1" by linarith
    with False show ?thesis by (simp add: binarySearch.simps)
  next
    case True
    define mid where "mid = (low + high) div 2"
    have mid: "low \<le> mid" "mid \<le> high" using True by (auto simp: mid_def)
    show ?thesis
    proof (cases "succeeds (g mid)")
      case ex: True
      with "1.prems"(1) mid have "mid < n" by blast
      have "binarySearch g (mid + 1) high = n - 1"
      proof (rule "1.IH"(1)[OF True mid_def ex])
        fix i assume "mid + 1 \<le> i" "i \<le> high"
        then show "succeeds (g i) = (i < n)" using "1.prems"(1) mid by simp
      next
        show "mid + 1 \<le> n" using \<open>mid < n\<close> by simp
      next
        show "n \<le> high + 1" by (rule "1.prems"(3))
      qed
      then show ?thesis
        using True ex by (subst binarySearch.simps) (simp add: mid_def)
    next
      case nex: False
      with "1.prems"(1) mid have "n \<le> mid" by force
      have "binarySearch g low (mid - 1) = n - 1"
      proof (rule "1.IH"(2)[OF True mid_def nex])
        fix i assume "low \<le> i" "i \<le> mid - 1"
        then show "succeeds (g i) = (i < n)" using "1.prems"(1) mid by simp
      next
        show "low \<le> n" by (rule "1.prems"(2))
      next
        show "n \<le> mid - 1 + 1" using \<open>n \<le> mid\<close> by simp
      qed
      then show ?thesis
        using True nex by (subst binarySearch.simps) (simp add: mid_def)
    qed
  qed
qed

lemma takeWhile_less_upto:
  assumes "0 \<le> n" and "n \<le> b + 1"
  shows "takeWhile (\<lambda>i. i < n) [0 .. b] = [0 .. n - 1]"
proof -
  have split: "[0 .. b] = [0 .. n - 1] @ [n .. b]"
    using assms upto_split2[of 0 "n - 1" b] by (cases "n = 0") auto
  have below: "\<And>x. x \<in> set [0 .. n - 1] \<Longrightarrow> x < n" by auto
  have "takeWhile (\<lambda>i. i < n) ([0 .. n - 1] @ [n .. b])
      = [0 .. n - 1] @ takeWhile (\<lambda>i. i < n) [n .. b]"
    by (rule takeWhile_append2) (rule below)
  moreover have "takeWhile (\<lambda>i. i < n) [n .. b] = []"
  proof (cases "n \<le> b")
    case True
    then have "[n .. b] = n # [n + 1 .. b]" by (rule upto_rec1)
    then show ?thesis by simp
  next
    case False
    then show ?thesis by simp
  qed
  ultimately show ?thesis using split by simp
qed

lemma linearScan_contiguous:
  assumes "\<And>i. 0 \<le> i \<Longrightarrow> i \<le> UPPER_BOUND \<Longrightarrow> succeeds (g i) = (i < n)"
    and "0 \<le> n" and "n \<le> UPPER_BOUND + 1"
  shows "linearScan g = n"
proof -
  have "takeWhile (\<lambda>i. succeeds (g i)) [0 .. UPPER_BOUND]
      = takeWhile (\<lambda>i. i < n) [0 .. UPPER_BOUND]"
    by (rule takeWhile_cong) (use assms(1) in auto)
  also have "\<dots> = [0 .. n - 1]"
    by (rule takeWhile_less_upto[OF assms(2,3)])
  finally show ?thesis
    using assms(2) by (simp add: linearScan_def)
qed

lemma succeeds_contiguousLedger:
  "succeeds (contiguousLedger n st i) = (0 \<le> i \<and> i < n)"
  by (simp add: contiguousLedger_def succeeds_def)



subsection \<open>Proposal count discovery agrees with a linear scan\<close>

text \<open>
  Claim C2. When the existing proposal identifiers are exactly \<open>0, ..., n - 1\<close> and
  \<open>n\<close> does not exceed the upper bound 1000, the binary search of
  \<open>fetchProposalStats\<close> yields \<open>high + 1 = n\<close>, which is also what a linear existence
  scan counts; \<open>fetchProposalStats\<close> reports this \<open>n\<close> as \<open>totalProposals\<close> whenever the
  direct accessor is absent, rejects or answers 0.
\<close>

theorem binary_search_count_eq_linear_scan:
  assumes "\<And>i. succeeds (g i) = (0 \<le> i \<and> i < n)"
    and "0 \<le> n" and "n \<le> UPPER_BOUND"
  shows "binarySearch g 0 UPPER_BOUND + 1 = n
       \<and> binarySearch g 0 UPPER_BOUND + 1 = linearScan g
       \<and> (directTotal d = 0 \<longrightarrow> totalProposalsOf (fetchProposalStats d g) = n)"
proof -
  have "binarySearch g 0 UPPER_BOUND = n - 1"
    by (rule binarySearch_contiguous) (use assms in auto)
  then have bs: "binarySearch g 0 UPPER_BOUND + 1 = n" by simp
  have ls: "linearScan g = n"
    by (rule linearScan_contiguous) (use assms in auto)
  have "totalProposalsOf (fetchProposalStats d g) = n" if "directTotal d = 0"
    using that bs by (simp add: fetchProposalStats_def totalProposals_def Let_def)
  with bs ls show ?thesis by simp
qed

theorem binary_search_count_witness:
  "binarySearch (contiguousLedger 5 0) 0 UPPER_BOUND + 1 = 5
   \<and> linearScan (contiguousLedger 5 0) = 5
   \<and> totalProposalsOf (fetchProposalStats NoCountMethod (contiguousLedger 5 0)) = 5
   \<and> binarySearch (contiguousLedger 0 0) 0 UPPER_BOUND + 1 = 0
   \<and> linearScan (contiguousLedger 0 0) = 0"
proof -
  have five: "\<And>i. succeeds (contiguousLedger 5 0 i) = (0 \<le> i \<and> i < 5)"
    by (rule succeeds_contiguousLedger)
  have none: "\<And>i. succeeds (contiguousLedger 0 0 i) = (0 \<le> i \<and> i < 0)"
    by (rule succeeds_contiguousLedger)
  have b5: "(0::int) \<le> 5" "(5::int) \<le> UPPER_BOUND" by (simp_all add: UPPER_BOUND_def)
  have b0: "(0::int) \<le> 0" "(0::int) \<le> UPPER_BOUND" by (simp_all add: UPPER_BOUND_def)
  have d: "directTotal NoCountMethod = 0" by (simp add: directTotal_def)
  show ?thesis
    using binary_search_count_eq_linear_scan[OF five b5, of NoCountMethod]
      binary_search_count_eq_linear_scan[OF none b0, of NoCountMethod] d
    by simp
qed
subsection \<open>Lemmas on the log loop\<close>

lemma setAdd_set: "set (setAdd x xs) = insert x (set xs)"
  by (auto simp: setAdd_def)

lemma setAdd_distinct: "distinct xs \<Longrightarrow> distinct (setAdd x xs)"
  by (simp add: setAdd_def)

lemma addWeight_voters: "voters (addWeight s w t) = voters t"
  by (simp add: addWeight_def)

lemma addWeight_yes: "yes (addWeight s w t) = yes t + (if s = 1 then w else 0)"
  by (simp add: addWeight_def)

lemma addWeight_no: "no (addWeight s w t) = no t + (if s = 0 then w else 0)"
  by (simp add: addWeight_def)

lemma addWeight_abstain: "abstain (addWeight s w t) = abstain t + (if s = 2 then w else 0)"
  by (simp add: addWeight_def)

lemma countedVotes_Nil: "countedVotes [] = []"
  by (simp add: countedVotes_def)

lemma countedVotes_Cons: "countedVotes (l # logs) = countedVotes [l] @ countedVotes logs"
  by (simp add: countedVotes_def)

lemma countedVoters_Cons: "countedVoters (l # logs) = countedVoters [l] @ countedVoters logs"
  by (simp add: countedVoters_def countedVotes_def)

lemma weightFor_Nil: "weightFor s [] = 0"
  by (simp add: weightFor_def countedVotes_def)

lemma weightFor_Cons: "weightFor s (l # logs) = weightFor s [l] + weightFor s logs"
  by (simp add: weightFor_def countedVotes_def)

lemma processLog_voters:
  "set (voters (processLog t l)) = set (voters t) \<union> toLowerCase ` set (countedVoters [l])"
  by (cases l)
     (auto simp: processLog_def toNumber_def countedVoters_def countedVotes_def setAdd_set
        addWeight_voters)

lemma processLog_distinct: "distinct (voters t) \<Longrightarrow> distinct (voters (processLog t l))"
  by (cases l) (auto simp: processLog_def toNumber_def setAdd_distinct addWeight_voters)

lemma processLog_yes: "yes (processLog t l) = yes t + weightFor 1 [l]"
  by (cases l)
     (auto simp: processLog_def toNumber_def weightFor_def countedVotes_def addWeight_def)

lemma processLog_no: "no (processLog t l) = no t + weightFor 0 [l]"
  by (cases l)
     (auto simp: processLog_def toNumber_def weightFor_def countedVotes_def addWeight_def)

lemma processLog_abstain: "abstain (processLog t l) = abstain t + weightFor 2 [l]"
  by (cases l)
     (auto simp: processLog_def toNumber_def weightFor_def countedVotes_def addWeight_def)

lemma foldl_processLog_voters:
  "set (voters (foldl processLog t logs)) = set (voters t) \<union> toLowerCase ` set (countedVoters logs)"
proof (induction logs arbitrary: t)
  case Nil
  show ?case by (simp add: countedVoters_def countedVotes_def)
next
  case (Cons l logs)
  have "set (voters (foldl processLog t (l # logs)))
      = set (voters (processLog t l)) \<union> toLowerCase ` set (countedVoters logs)"
    by (simp add: Cons.IH)
  also have "\<dots> = set (voters t) \<union> toLowerCase ` set (countedVoters (l # logs))"
    by (subst countedVoters_Cons) (auto simp: processLog_voters)
  finally show ?case .
qed

lemma foldl_processLog_distinct:
  "distinct (voters t) \<Longrightarrow> distinct (voters (foldl processLog t logs))"
  by (induction logs arbitrary: t) (simp_all add: processLog_distinct)

lemma foldl_processLog_yes: "yes (foldl processLog t logs) = yes t + weightFor 1 logs"
proof (induction logs arbitrary: t)
  case Nil
  show ?case by (simp add: weightFor_Nil)
next
  case (Cons l logs)
  show ?case using weightFor_Cons[of 1 l logs] by (simp add: Cons.IH processLog_yes)
qed

lemma foldl_processLog_no: "no (foldl processLog t logs) = no t + weightFor 0 logs"
proof (induction logs arbitrary: t)
  case Nil
  show ?case by (simp add: weightFor_Nil)
next
  case (Cons l logs)
  show ?case using weightFor_Cons[of 0 l logs] by (simp add: Cons.IH processLog_no)
qed

lemma foldl_processLog_abstain: "abstain (foldl processLog t logs) = abstain t + weightFor 2 logs"
proof (induction logs arbitrary: t)
  case Nil
  show ?case by (simp add: weightFor_Nil)
next
  case (Cons l logs)
  show ?case using weightFor_Cons[of 2 l logs] by (simp add: Cons.IH processLog_abstain)
qed

lemma processLogs_sums:
  "yes (processLogs logs) = weightFor 1 logs"
  "no (processLogs logs) = weightFor 0 logs"
  "abstain (processLogs logs) = weightFor 2 logs"
  by (simp_all add: processLogs_def emptyTally_def foldl_processLog_yes foldl_processLog_no
        foldl_processLog_abstain)

lemma processLogs_voters:
  "set (voters (processLogs logs)) = toLowerCase ` set (countedVoters logs)"
  "distinct (voters (processLogs logs))"
  by (simp_all add: processLogs_def emptyTally_def foldl_processLog_voters foldl_processLog_distinct)

subsection \<open>Lemmas on the percentages\<close>

lemma shares_sum:
  fixes y n a :: rat
  assumes "y + n + a \<noteq> 0"
  shows "(y / (y + n + a)) * 100 + (n / (y + n + a)) * 100 + (a / (y + n + a)) * 100 = 100"
proof -
  have "(y / (y + n + a)) * 100 + (n / (y + n + a)) * 100 + (a / (y + n + a)) * 100
      = ((y + n + a) / (y + n + a)) * 100"
    unfolding add_divide_distrib distrib_right ..
  also have "\<dots> = 100" using assms by simp
  finally show ?thesis .
qed

lemma percentageOf_sum:
  assumes "y + n + a > 0"
  shows "percentageOf y (y + n + a) + percentageOf n (y + n + a) + percentageOf a (y + n + a) = 100"
proof -
  have "(of_nat y + of_nat n + of_nat a :: rat) = of_nat (y + n + a)" by simp
  also have "\<dots> \<noteq> 0" using assms by (simp only: of_nat_eq_0_iff) 
  finally have nz: "(of_nat y + of_nat n + of_nat a :: rat) \<noteq> 0" .
  have "percentageOf y (y + n + a) = (of_nat y / (of_nat y + of_nat n + of_nat a)) * 100"
       "percentageOf n (y + n + a) = (of_nat n / (of_nat y + of_nat n + of_nat a)) * 100"
       "percentageOf a (y + n + a) = (of_nat a / (of_nat y + of_nat n + of_nat a)) * 100"
    using assms by (simp_all add: percentageOf_def)
  then show ?thesis using shares_sum[OF nz] by (simp only:)
qed

lemma finishTotals_percentages:
  "\<exists>py pn pa. yesPercentage (finishTotals t) = Some py \<and> noPercentage (finishTotals t) = Some pn
     \<and> abstainPercentage (finishTotals t) = Some pa
     \<and> (if totalVotes (finishTotals t) > 0 then py + pn + pa = 100
         else py = 0 \<and> pn = 0 \<and> pa = 0)"
proof (cases "yes t + no t + abstain t > 0")
  case True
  from percentageOf_sum[OF True] True show ?thesis
    by (simp add: finishTotals_def Let_def)
next
  case False
  then show ?thesis by (simp add: finishTotals_def Let_def percentageOf_def)
qed

lemma calculateVotePercentages_sum:
  "(let r = calculateVotePercentages py pn pa in
      if totalVotesShown r > 0
      then yesPercentageShown r + noPercentageShown r + abstainPercentageShown r = 100
      else yesPercentageShown r = 0 \<and> noPercentageShown r = 0 \<and> abstainPercentageShown r = 0)"
proof (cases "orZero py + orZero pn + orZero pa > 0")
  case True
  then have "orZero py + orZero pn + orZero pa \<noteq> 0" by simp
  from shares_sum[OF this] True show ?thesis
    by (simp add: calculateVotePercentages_def Let_def)
next
  case False
  then show ?thesis by (simp add: calculateVotePercentages_def Let_def)
qed

subsection \<open>Lemmas on the vote of the connected account\<close>

lemma accountVote_in_logs:
  assumes "account env = Some acct" and "toLowerCase acct \<in> set (voters t)"
  shows "accountVote env pid t = t"
proof (cases "proposalVoterInfo env pid acct")
  case (Inl e)
  with assms show ?thesis by (simp add: accountVote_def)
next
  case (Inr w)
  show ?thesis
  proof (cases "queryVoteCast env pid acct")
    case (Inl e)
    with assms Inr show ?thesis by (simp add: accountVote_def)
  next
    case evs: (Inr evs)
    with assms Inr show ?thesis by (simp add: accountVote_def setHas_def Let_def)
  qed
qed

lemma accountVote_missing:
  assumes "account env = Some acct" "acct \<noteq> []" "toLowerCase acct \<notin> set (voters t)"
    and "proposalVoterInfo env pid acct = Inr w" "0 < w" "w \<le> MAX_SAFE_INTEGER"
    and "queryVoteCast env pid acct = Inr evs" "evs \<noteq> []"
  shows "accountVote env pid t
       = addWeight (last evs) w (t\<lparr> voters := voters t @ [toLowerCase acct] \<rparr>)"
  using assms by (simp add: accountVote_def setHas_def setAdd_def toNumber_def Let_def)




lemma main_path:
  assumes "governance env" "provider env" "getProposalState env pid = Inr st"
    and "getLogs env pid = Inr logs"
  shows "getProposalVoteTotals env pid = Inr (finishTotals (accountVote env pid (processLogs logs)))"
  using assms by (simp add: getProposalVoteTotals_def voteTotalsBody_def)


subsection \<open>The reconstructed tally\<close>

lemmas eval_totals = getProposalVoteTotals_def voteTotalsBody_def sampleEnv_def
  contiguousLedger_def processLogs_def processLog_def emptyTally_def toNumber_def
  MAX_SAFE_INTEGER_def addWeight_def setAdd_def setHas_def toLowerCase_def toLowerChar_def
  accountVote_def finishTotals_def percentageOf_def Let_def

text \<open>
  Claim C1. The reconstruction is a function of the logs, and the distinct-voter count
  ignores a repeated voter, but the weight of a voter who appears in several events is
  added once per event (\<open>processLogs_sums\<close>: each bucket is the sum over all counted
  events). For the events (A, For, 100), (B, Against, 50), (A, For, 100) of proposal 7 the
  source returns yes 200 and a total of 250 with 2 voters, not yes 100.
\<close>

theorem duplicate_events_add_weight_twice:
  "getProposalVoteTotals duplicateEnv 7 =
     Inr \<lparr> yesVotes = 200, noVotes = 50, abstainVotes = 0, totalVotes = 250, totalVoters = 2,
           yesPercentage = Some 80, noPercentage = Some 20, abstainPercentage = Some 0 \<rparr>"
  by (simp add: eval_totals duplicateEnv_def duplicateLogs_def)

text \<open>
  Claim C3, as the source has it. When the state query for the proposal fails, the
  reconstruction does not fail: it returns a tally whose three sums, total and voter
  count are all 0.
\<close>

theorem absent_proposal_zero_counts:
  assumes "getProposalState env proposalId = Inl e"
  shows "\<exists>t. getProposalVoteTotals env proposalId = Inr t
           \<and> yesVotes t = 0 \<and> noVotes t = 0 \<and> abstainVotes t = 0
           \<and> totalVotes t = 0 \<and> totalVoters t = 0"
  using assms by (simp add: getProposalVoteTotals_def voteTotalsBody_def zeroTotalsShort_def)

theorem absent_proposal_zero_counts_witness:
  "getProposalState sampleEnv 9 = Inl (Upstream ''revert'')
   \<and> (\<exists>t. getProposalVoteTotals sampleEnv 9 = Inr t
           \<and> yesVotes t = 0 \<and> noVotes t = 0 \<and> abstainVotes t = 0
           \<and> totalVotes t = 0 \<and> totalVoters t = 0)"
proof -
  have h: "getProposalState sampleEnv 9 = Inl (Upstream ''revert'')"
    by (simp add: sampleEnv_def contiguousLedger_def)
  from absent_proposal_zero_counts[OF h] h show ?thesis by simp
qed

text \<open>
  Claim C3 as stated fails: proposal 9 does not exist on the sample ledger, and the
  reconstruction returns a value instead of failing with \<open>NotFound\<close>.
\<close>

theorem absent_proposal_no_NotFound:
  "getProposalState sampleEnv 9 = Inl (Upstream ''revert'')
   \<and> getProposalVoteTotals sampleEnv 9 \<noteq> Inl NotFound
   \<and> getProposalVoteTotals sampleEnv 9 = Inr zeroTotalsShort"
  by (simp add: eval_totals)

text \<open>
  Claim C4, as the source has it. The direct query of the connected account only fills a
  gap. The voters the loop has counted are those of the logs that parse and whose weight
  \<open>toNumber\<close> accepts (at most \<open>2^53 - 1\<close>); a log that fails either test is dropped
  before its voter is added. When the lower-cased account is among the counted voters,
  the tally is the one of the logs alone, whatever the direct query says. When it is not
  (it has no log, or its logs were dropped) and the direct query reports a non-zero
  weight of at most \<open>2^53 - 1\<close> and at least one vote event, that weight is added to the
  bucket of the latest event and the account to the voters: there the direct query
  decides the account's contribution.
\<close>

theorem direct_query_only_fills_gaps:
  assumes "governance env" "provider env" "getProposalState env pid = Inr st"
    and "getLogs env pid = Inr logs" and "account env = Some acct"
  shows "(toLowerCase acct \<in> toLowerCase ` set (countedVoters logs) \<longrightarrow>
            getProposalVoteTotals env pid = Inr (finishTotals (processLogs logs)))
       \<and> (toLowerCase acct \<notin> toLowerCase ` set (countedVoters logs) \<and> acct \<noteq> []
            \<and> proposalVoterInfo env pid acct = Inr w \<and> 0 < w \<and> w \<le> MAX_SAFE_INTEGER
            \<and> queryVoteCast env pid acct = Inr evs \<and> evs \<noteq> [] \<longrightarrow>
            getProposalVoteTotals env pid =
              Inr (finishTotals
                     (addWeight (last evs) w
                        ((processLogs logs)\<lparr> voters := voters (processLogs logs) @ [toLowerCase acct] \<rparr>))))"
proof -
  note mp = main_path[OF assms(1-4)]
  note vs = processLogs_voters(1)[of logs]
  show ?thesis
  proof (intro conjI impI)
    assume "toLowerCase acct \<in> toLowerCase ` set (countedVoters logs)"
    then have "toLowerCase acct \<in> set (voters (processLogs logs))" by (simp only: vs)
    from accountVote_in_logs[OF assms(5) this] mp
    show "getProposalVoteTotals env pid = Inr (finishTotals (processLogs logs))" by simp
  next
    assume h: "toLowerCase acct \<notin> toLowerCase ` set (countedVoters logs) \<and> acct \<noteq> []
            \<and> proposalVoterInfo env pid acct = Inr w \<and> 0 < w \<and> w \<le> MAX_SAFE_INTEGER
            \<and> queryVoteCast env pid acct = Inr evs \<and> evs \<noteq> []"
    then have "toLowerCase acct \<notin> set (voters (processLogs logs))" by (simp only: vs) simp
    from accountVote_missing[OF assms(5) _ this, of pid w evs] h mp
    show "getProposalVoteTotals env pid =
              Inr (finishTotals
                     (addWeight (last evs) w
                        ((processLogs logs)\<lparr> voters := voters (processLogs logs) @ [toLowerCase acct] \<rparr>)))"
      by simp
  qed
qed

theorem direct_query_only_fills_gaps_witness:
  "getProposalVoteTotals disagreeEnv 7 =
     Inr (finishTotals (processLogs [VoteCast ''0xA'' 1 100]))
   \<and> getProposalVoteTotals missingEnv 7 =
     Inr (finishTotals
            (addWeight 2 30
               ((processLogs [VoteCast ''0xB'' 0 50])
                  \<lparr> voters := voters (processLogs [VoteCast ''0xB'' 0 50]) @ [''0xc''] \<rparr>)))
   \<and> countedVoters [VoteCast ''0xA'' 1 1000000000000000000] = []
   \<and> getProposalVoteTotals overflowEnv 7 =
     Inr \<lparr> yesVotes = 0, noVotes = 70, abstainVotes = 0, totalVotes = 70, totalVoters = 1,
           yesPercentage = Some 0, noPercentage = Some 100, abstainPercentage = Some 0 \<rparr>"
proof -
  have d: "governance disagreeEnv" "provider disagreeEnv"
    "getProposalState disagreeEnv 7 = Inr 0"
    "getLogs disagreeEnv 7 = Inr [VoteCast ''0xA'' 1 100]"
    "account disagreeEnv = Some ''0xA''"
    by (simp_all add: disagreeEnv_def sampleEnv_def contiguousLedger_def)
  have din: "toLowerCase ''0xA'' \<in> toLowerCase ` set (countedVoters [VoteCast ''0xA'' 1 100])"
    by (simp add: countedVoters_def countedVotes_def MAX_SAFE_INTEGER_def)
  have m: "governance missingEnv" "provider missingEnv"
    "getProposalState missingEnv 7 = Inr 0"
    "getLogs missingEnv 7 = Inr [VoteCast ''0xB'' 0 50]"
    "account missingEnv = Some ''0xC''"
    by (simp_all add: missingEnv_def sampleEnv_def contiguousLedger_def)
  have mout: "toLowerCase ''0xC'' \<notin> toLowerCase ` set (countedVoters [VoteCast ''0xB'' 0 50])
      \<and> ''0xC'' \<noteq> [] \<and> proposalVoterInfo missingEnv 7 ''0xC'' = Inr 30 \<and> (0::nat) < 30
      \<and> 30 \<le> MAX_SAFE_INTEGER \<and> queryVoteCast missingEnv 7 ''0xC'' = Inr [2] \<and> [2::nat] \<noteq> []"
    by (simp add: countedVoters_def countedVotes_def MAX_SAFE_INTEGER_def missingEnv_def
        sampleEnv_def toLowerCase_def toLowerChar_def)
  have lc: "toLowerCase ''0xC'' = ''0xc''"
    by (simp add: toLowerCase_def toLowerChar_def)
  have v: "governance overflowEnv" "provider overflowEnv"
    "getProposalState overflowEnv 7 = Inr 0"
    "getLogs overflowEnv 7 = Inr [VoteCast ''0xA'' 1 1000000000000000000]"
    "account overflowEnv = Some ''0xA''"
    by (simp_all add: overflowEnv_def sampleEnv_def contiguousLedger_def)
  have dropped: "countedVoters [VoteCast ''0xA'' 1 1000000000000000000] = []"
    by (simp add: countedVoters_def countedVotes_def MAX_SAFE_INTEGER_def)
  have vout: "toLowerCase ''0xA''
        \<notin> toLowerCase ` set (countedVoters [VoteCast ''0xA'' 1 1000000000000000000])
      \<and> ''0xA'' \<noteq> [] \<and> proposalVoterInfo overflowEnv 7 ''0xA'' = Inr 70 \<and> (0::nat) < 70
      \<and> 70 \<le> MAX_SAFE_INTEGER \<and> queryVoteCast overflowEnv 7 ''0xA'' = Inr [0] \<and> [0::nat] \<noteq> []"
    by (simp add: countedVoters_def countedVotes_def MAX_SAFE_INTEGER_def overflowEnv_def
        sampleEnv_def)
  have run: "finishTotals
        (addWeight (last [0]) 70
           ((processLogs [VoteCast ''0xA'' 1 1000000000000000000])
              \<lparr> voters := voters (processLogs [VoteCast ''0xA'' 1 1000000000000000000])
                             @ [toLowerCase ''0xA''] \<rparr>))
      = \<lparr> yesVotes = 0, noVotes = 70, abstainVotes = 0, totalVotes = 70, totalVoters = 1,
          yesPercentage = Some 0, noPercentage = Some 100, abstainPercentage = Some 0 \<rparr>"
    by (simp add: processLogs_def processLog_def emptyTally_def toNumber_def
        MAX_SAFE_INTEGER_def addWeight_def finishTotals_def percentageOf_def Let_def)
  have over: "getProposalVoteTotals overflowEnv 7 =
     Inr \<lparr> yesVotes = 0, noVotes = 70, abstainVotes = 0, totalVotes = 70, totalVoters = 1,
           yesPercentage = Some 0, noPercentage = Some 100, abstainPercentage = Some 0 \<rparr>"
    using direct_query_only_fills_gaps[OF v, of 70 "[0]"] vout run by simp
  from direct_query_only_fills_gaps[OF d, of 0 "[]"] din
    direct_query_only_fills_gaps[OF m, of 30 "[2]"] mout lc dropped over
  show ?thesis by simp
qed

text \<open>
  Claim C4 as stated fails: the logs say 0xA voted For with 100, the direct queries say
  Against with 70, and the tally is the one of the logs.
\<close>

theorem logs_win_over_direct_query:
  "getLogs disagreeEnv 7 = Inr [VoteCast ''0xA'' 1 100]
   \<and> account disagreeEnv = Some ''0xA''
   \<and> proposalVoterInfo disagreeEnv 7 ''0xA'' = Inr 70
   \<and> queryVoteCast disagreeEnv 7 ''0xA'' = Inr [0]
   \<and> getProposalVoteTotals disagreeEnv 7 =
       Inr \<lparr> yesVotes = 100, noVotes = 0, abstainVotes = 0, totalVotes = 100, totalVoters = 1,
             yesPercentage = Some 100, noPercentage = Some 0, abstainPercentage = Some 0 \<rparr>"
  by (simp add: eval_totals disagreeEnv_def)

text \<open>
  Claim C5. On the main path and in the outer \<open>catch\<close> the percentages are as claimed
  (\<open>finishTotals_percentages\<close>, and \<open>calculateVotePercentages_sum\<close> for the vote tab),
  but the two early returns give a tally with \<open>totalVotes\<close> 0 and no percentage field at
  all: for a proposal whose state query fails the three percentages are missing, not 0.
\<close>

theorem absent_proposal_percentages_missing:
  "getProposalState sampleEnv 9 = Inl (Upstream ''revert'')
   \<and> getProposalVoteTotals sampleEnv 9 =
       Inr \<lparr> yesVotes = 0, noVotes = 0, abstainVotes = 0, totalVotes = 0, totalVoters = 0,
             yesPercentage = None, noPercentage = None, abstainPercentage = None \<rparr>"
  by (simp add: eval_totals zeroTotalsShort_def)



subsection \<open>Lemmas on castVote\<close>

lemma hasVoted_returns: "\<exists>b. hasVoted env pid = Inr b"
  by (cases "hasVotedBody env pid") (auto simp: hasVoted_def)

lemma castVoteBody_invalid:
  "voteType \<notin> set [VOTE_TYPES_AGAINST, VOTE_TYPES_FOR, VOTE_TYPES_ABSTAIN] \<Longrightarrow>
   castVoteBody env pid voteType = (Inl InvalidVoteType, [])"
  by (simp add: castVoteBody_def)

lemma castVoteBody_state_rejects:
  "voteType \<in> set [VOTE_TYPES_AGAINST, VOTE_TYPES_FOR, VOTE_TYPES_ABSTAIN] \<Longrightarrow>
   getProposalState env pid = Inl e \<Longrightarrow>
   castVoteBody env pid voteType = (Inl e, [])"
  by (simp add: castVoteBody_def)

lemma castVoteBody_inactive:
  "voteType \<in> set [VOTE_TYPES_AGAINST, VOTE_TYPES_FOR, VOTE_TYPES_ABSTAIN] \<Longrightarrow>
   getProposalState env pid = Inr s \<Longrightarrow> s \<noteq> 0 \<Longrightarrow>
   castVoteBody env pid voteType = (Inl InactiveProposal, [])"
  by (simp add: castVoteBody_def)

lemma castVoteBody_voted:
  "voteType \<in> set [VOTE_TYPES_AGAINST, VOTE_TYPES_FOR, VOTE_TYPES_ABSTAIN] \<Longrightarrow>
   getProposalState env pid = Inr 0 \<Longrightarrow> hasVoted env pid = Inr True \<Longrightarrow>
   castVoteBody env pid voteType = (Inl AlreadyVoted, [])"
  by (simp add: castVoteBody_def)

lemma castVoteBody_power_rejects:
  "voteType \<in> set [VOTE_TYPES_AGAINST, VOTE_TYPES_FOR, VOTE_TYPES_ABSTAIN] \<Longrightarrow>
   getProposalState env pid = Inr 0 \<Longrightarrow> hasVoted env pid = Inr False \<Longrightarrow>
   resolveVotingPower env pid = Inl e \<Longrightarrow>
   castVoteBody env pid voteType = (Inl e, [])"
  by (simp add: castVoteBody_def)

lemma castVoteBody_no_power:
  "voteType \<in> set [VOTE_TYPES_AGAINST, VOTE_TYPES_FOR, VOTE_TYPES_ABSTAIN] \<Longrightarrow>
   getProposalState env pid = Inr 0 \<Longrightarrow> hasVoted env pid = Inr False \<Longrightarrow>
   resolveVotingPower env pid = Inr 0 \<Longrightarrow>
   castVoteBody env pid voteType = (Inl NoVotingPower, [])"
  by (simp add: castVoteBody_def)

lemma castVoteBody_submits:
  "voteType \<in> set [VOTE_TYPES_AGAINST, VOTE_TYPES_FOR, VOTE_TYPES_ABSTAIN] \<Longrightarrow>
   getProposalState env pid = Inr 0 \<Longrightarrow> hasVoted env pid = Inr False \<Longrightarrow>
   resolveVotingPower env pid = Inr p \<Longrightarrow> p \<noteq> 0 \<Longrightarrow>
   castVoteBody env pid voteType =
     (case submitCastVote env pid voteType of
        Inl e \<Rightarrow> (Inl e, [SubmitVote pid voteType])
      | Inr rcpt \<Rightarrow>
          (Inr \<lparr> successField = True, votingPowerOf = formatEther env p,
                 voteTypeOf = voteType, transactionHashOf = transactionHash rcpt \<rparr>,
           [SubmitVote pid voteType]))"
  by (simp add: castVoteBody_def)

text \<open>The block either ends in an error without a submission, or every validation passed.\<close>

lemma castVoteBody_cases:
  "(\<exists>e. castVoteBody env pid voteType = (Inl e, []))
   \<or> (voteType \<in> set [VOTE_TYPES_AGAINST, VOTE_TYPES_FOR, VOTE_TYPES_ABSTAIN]
       \<and> getProposalState env pid = Inr 0 \<and> hasVoted env pid = Inr False
       \<and> (\<exists>p. resolveVotingPower env pid = Inr p \<and> p \<noteq> 0)
       \<and> (\<exists>r. castVoteBody env pid voteType = (r, [SubmitVote pid voteType])))"
proof (cases "voteType \<in> set [VOTE_TYPES_AGAINST, VOTE_TYPES_FOR, VOTE_TYPES_ABSTAIN]")
  case False
  then show ?thesis using castVoteBody_invalid[of voteType env pid] by blast
next
  case valid: True
  show ?thesis
  proof (cases "getProposalState env pid")
    case (Inl e)
    then show ?thesis using castVoteBody_state_rejects[OF valid] by blast
  next
    case (Inr s)
    show ?thesis
    proof (cases "s = 0")
      case False
      then show ?thesis using castVoteBody_inactive[OF valid Inr] by blast
    next
      case True
      with Inr have st: "getProposalState env pid = Inr 0" by simp
      obtain b where b: "hasVoted env pid = Inr b" using hasVoted_returns by blast
      show ?thesis
      proof (cases b)
        case True
        with b have "hasVoted env pid = Inr True" by simp
        then show ?thesis using castVoteBody_voted[OF valid st] by blast
      next
        case False
        with b have hv: "hasVoted env pid = Inr False" by simp
        show ?thesis
        proof (cases "resolveVotingPower env pid")
          case (Inl e)
          then show ?thesis using castVoteBody_power_rejects[OF valid st hv] by blast
        next
          case p: (Inr p)
          show ?thesis
          proof (cases "p = 0")
            case True
            with p show ?thesis using castVoteBody_no_power[OF valid st hv] by blast
          next
            case False
            have "\<exists>r. castVoteBody env pid voteType = (r, [SubmitVote pid voteType])"
              unfolding castVoteBody_submits[OF valid st hv p False]
              by (cases "submitCastVote env pid voteType") simp_all
            with valid st hv p False show ?thesis by blast
          qed
        qed
      qed
    qed
  qed
qed

lemma castVote_connected:
  assumes "isConnected env" "contractsReady env" "governance env"
  shows "fst (castVote env pid voteType) = fst (castVoteBody env pid voteType)"
    and "submissions (snd (castVote env pid voteType))
       = submissions (snd (castVoteBody env pid voteType))"
  using assms
  by (cases "castVoteBody env pid voteType"; cases "fst (castVoteBody env pid voteType)";
      simp add: castVote_def submissions_def Let_def)+

lemma castVote_disconnected:
  assumes "\<not> (isConnected env \<and> contractsReady env \<and> governance env)"
  shows "\<exists>e. castVote env pid voteType = (Inl e, [])"
  using assms by (auto simp: castVote_def)

subsection \<open>Validation before the ledger write\<close>

text \<open>
  Claim C6. Whenever a local validation of \<open>castVote\<close> fails (the vote type is not 0, 1
  or 2, the state query answers a state other than 0 (Active), \<open>hasVoted\<close> answers true,
  or the voting power at the proposal's snapshot is zero), \<open>castVote\<close> throws and its
  effects contain no submission of a vote transaction. In a connected session the error
  thrown is the one of the first validation that fails, in the order of the source:
  invalid vote type, inactive proposal, already voted, no voting power.
\<close>

theorem castVote_validation_fails_before_submission:
  "((voteType \<notin> set [VOTE_TYPES_AGAINST, VOTE_TYPES_FOR, VOTE_TYPES_ABSTAIN]
      \<or> (\<exists>s. getProposalState env pid = Inr s \<and> s \<noteq> 0)
      \<or> hasVoted env pid = Inr True
      \<or> resolveVotingPower env pid = Inr 0)
     \<longrightarrow> (\<exists>e. fst (castVote env pid voteType) = Inl e)
          \<and> submissions (snd (castVote env pid voteType)) = [])
   \<and> (isConnected env \<and> contractsReady env \<and> governance env \<longrightarrow>
        (voteType \<notin> set [VOTE_TYPES_AGAINST, VOTE_TYPES_FOR, VOTE_TYPES_ABSTAIN]
           \<longrightarrow> fst (castVote env pid voteType) = Inl InvalidVoteType)
      \<and> (voteType \<in> set [VOTE_TYPES_AGAINST, VOTE_TYPES_FOR, VOTE_TYPES_ABSTAIN]
           \<and> (\<exists>s. getProposalState env pid = Inr s \<and> s \<noteq> 0)
           \<longrightarrow> fst (castVote env pid voteType) = Inl InactiveProposal)
      \<and> (voteType \<in> set [VOTE_TYPES_AGAINST, VOTE_TYPES_FOR, VOTE_TYPES_ABSTAIN]
           \<and> getProposalState env pid = Inr 0 \<and> hasVoted env pid = Inr True
           \<longrightarrow> fst (castVote env pid voteType) = Inl AlreadyVoted)
      \<and> (voteType \<in> set [VOTE_TYPES_AGAINST, VOTE_TYPES_FOR, VOTE_TYPES_ABSTAIN]
           \<and> getProposalState env pid = Inr 0 \<and> hasVoted env pid = Inr False
           \<and> resolveVotingPower env pid = Inr 0
           \<longrightarrow> fst (castVote env pid voteType) = Inl NoVotingPower))"
proof (intro conjI impI)
  assume fails: "voteType \<notin> set [VOTE_TYPES_AGAINST, VOTE_TYPES_FOR, VOTE_TYPES_ABSTAIN]
      \<or> (\<exists>s. getProposalState env pid = Inr s \<and> s \<noteq> 0)
      \<or> hasVoted env pid = Inr True
      \<or> resolveVotingPower env pid = Inr 0"
  have both: "(\<exists>e. fst (castVote env pid voteType) = Inl e)
      \<and> submissions (snd (castVote env pid voteType)) = []"
  proof (cases "isConnected env \<and> contractsReady env \<and> governance env")
    case False
    then obtain e where "castVote env pid voteType = (Inl e, [])"
      using castVote_disconnected[of env pid voteType] by blast
    then show ?thesis by (simp add: submissions_def)
  next
    case True
    then have c: "isConnected env" "contractsReady env" "governance env" by simp_all
    from castVoteBody_cases[of env pid voteType] fails
    obtain e where e: "castVoteBody env pid voteType = (Inl e, [])" by auto
    have "fst (castVote env pid voteType) = Inl e"
      using castVote_connected(1)[OF c, of pid voteType] e by simp
    moreover have "submissions (snd (castVote env pid voteType)) = []"
      using castVote_connected(2)[OF c, of pid voteType] e by (simp add: submissions_def)
    ultimately show ?thesis by blast
  qed
  from both show "\<exists>e. fst (castVote env pid voteType) = Inl e" ..
  from both show "submissions (snd (castVote env pid voteType)) = []" ..
next
  assume "isConnected env \<and> contractsReady env \<and> governance env"
    and "voteType \<notin> set [VOTE_TYPES_AGAINST, VOTE_TYPES_FOR, VOTE_TYPES_ABSTAIN]"
  then show "fst (castVote env pid voteType) = Inl InvalidVoteType"
    by (simp add: castVote_connected(1) castVoteBody_invalid)
next
  assume c: "isConnected env \<and> contractsReady env \<and> governance env"
    and h: "voteType \<in> set [VOTE_TYPES_AGAINST, VOTE_TYPES_FOR, VOTE_TYPES_ABSTAIN]
           \<and> (\<exists>s. getProposalState env pid = Inr s \<and> s \<noteq> 0)"
  from h obtain s where "getProposalState env pid = Inr s" "s \<noteq> 0" by blast
  with h have "castVoteBody env pid voteType = (Inl InactiveProposal, [])"
    by (intro castVoteBody_inactive) simp_all
  with c show "fst (castVote env pid voteType) = Inl InactiveProposal"
    by (simp add: castVote_connected(1))
next
  assume c: "isConnected env \<and> contractsReady env \<and> governance env"
    and h: "voteType \<in> set [VOTE_TYPES_AGAINST, VOTE_TYPES_FOR, VOTE_TYPES_ABSTAIN]
           \<and> getProposalState env pid = Inr 0 \<and> hasVoted env pid = Inr True"
  then have "castVoteBody env pid voteType = (Inl AlreadyVoted, [])"
    by (intro castVoteBody_voted) simp_all
  with c show "fst (castVote env pid voteType) = Inl AlreadyVoted"
    by (simp add: castVote_connected(1))
next
  assume c: "isConnected env \<and> contractsReady env \<and> governance env"
    and h: "voteType \<in> set [VOTE_TYPES_AGAINST, VOTE_TYPES_FOR, VOTE_TYPES_ABSTAIN]
           \<and> getProposalState env pid = Inr 0 \<and> hasVoted env pid = Inr False
           \<and> resolveVotingPower env pid = Inr 0"
  then have "castVoteBody env pid voteType = (Inl NoVotingPower, [])"
    by (intro castVoteBody_no_power) simp_all
  with c show "fst (castVote env pid voteType) = Inl NoVotingPower"
    by (simp add: castVote_connected(1))
qed

lemmas eval_cast = voterEnv_def sampleEnv_def contiguousLedger_def hasVoted_def hasVotedBody_def
  truthyAccount_def resolveVotingPower_def getProposalSnapshotId_def
  VOTE_TYPES_AGAINST_def VOTE_TYPES_FOR_def VOTE_TYPES_ABSTAIN_def Let_def

theorem castVote_validation_witness:
  "fst (castVote voterEnv 7 5) = Inl InvalidVoteType
   \<and> submissions (snd (castVote voterEnv 7 5)) = []
   \<and> fst (castVote voterEnv 8 1) = Inl InactiveProposal
   \<and> submissions (snd (castVote voterEnv 8 1)) = []
   \<and> fst (castVote voterEnv 6 1) = Inl AlreadyVoted
   \<and> submissions (snd (castVote voterEnv 6 1)) = []
   \<and> fst (castVote voterEnv 5 1) = Inl NoVotingPower
   \<and> submissions (snd (castVote voterEnv 5 1)) = []"
proof -
  have c: "isConnected voterEnv \<and> contractsReady voterEnv \<and> governance voterEnv"
    by (simp add: eval_cast)
  have s8: "\<exists>s. getProposalState voterEnv 8 = Inr s \<and> s \<noteq> 0"
    by (simp add: eval_cast)
  have s6: "getProposalState voterEnv 6 = Inr 0" "hasVoted voterEnv 6 = Inr True"
    by (simp_all add: eval_cast)
  have s5: "getProposalState voterEnv 5 = Inr 0" "hasVoted voterEnv 5 = Inr False"
    "resolveVotingPower voterEnv 5 = Inr 0"
    by (simp_all add: eval_cast)
  show ?thesis
    using castVote_validation_fails_before_submission[of 5 voterEnv 7]
      castVote_validation_fails_before_submission[of 1 voterEnv 8]
      castVote_validation_fails_before_submission[of 1 voterEnv 6]
      castVote_validation_fails_before_submission[of 1 voterEnv 5]
      c s8 s6 s5
    by (simp add: VOTE_TYPES_AGAINST_def VOTE_TYPES_FOR_def VOTE_TYPES_ABSTAIN_def)
qed

subsection \<open>The optimistic local vote\<close>

lemma votedAfter_append:
  "votedAfter m (xs @ ys) = votedAfter (votedAfter m xs) ys"
  by (simp add: votedAfter_def)

lemma votedAfter_Cons_set:
  "votedAfter m (SetVotedProposals m' # xs) = votedAfter m' xs"
  by (simp add: votedAfter_def)

lemma votedAfter_Cons_other:
  "votedAfter m (SetVoting v # xs) = votedAfter m xs"
  "votedAfter m (SubmitVote p t # xs) = votedAfter m xs"
  "votedAfter m (Alert e # xs) = votedAfter m xs"
  "votedAfter m [] = m"
  by (simp_all add: votedAfter_def)

lemma castVoteBody_effects:
  "snd (castVoteBody env pid voteType) = []
   \<or> snd (castVoteBody env pid voteType) = [SubmitVote pid voteType]"
  using castVoteBody_cases[of env pid voteType] by auto

lemma votedAfter_castVote: "votedAfter m (snd (castVote env pid voteType)) = m"
proof (cases "isConnected env \<and> contractsReady env \<and> governance env")
  case False
  then obtain e where "castVote env pid voteType = (Inl e, [])"
    using castVote_disconnected[of env pid voteType] by blast
  then show ?thesis by (simp add: votedAfter_Cons_other)
next
  case True
  obtain r effs where b: "castVoteBody env pid voteType = (r, effs)"
    by (cases "castVoteBody env pid voteType")
  with castVoteBody_effects[of env pid voteType]
  have effs: "effs = [] \<or> effs = [SubmitVote pid voteType]" by simp
  from True b effs show ?thesis
    by (cases r) (auto simp: castVote_def Let_def votedAfter_Cons_other)
qed

lemma submissions_Cons_set: "submissions (SetVotedProposals m # xs) = submissions xs"
  by (simp add: submissions_def)

lemma submissions_append: "submissions (xs @ ys) = submissions xs @ submissions ys"
  by (simp add: submissions_def)

text \<open>
  Claim C7. The first effect of \<open>submitVote\<close> is the write of the local record for the
  proposal, which makes its local state pending; every ledger submission of the run is
  among the effects after it, those of \<open>castVote\<close>. When \<open>castVote\<close> throws, the last
  write removes the record and the local state of the proposal is unvoted again; when it
  returns, the record stays. This holds whatever the local state \<open>current\<close> was when the
  run started, since both writes start from the value the component was rendered with.
\<close>

theorem submitVote_records_first_and_rolls_back:
  "\<exists>rest. submitVote env votedProposals pid support
            = SetVotedProposals (votedProposals(pid \<mapsto> support)) # rest
      \<and> localState (votedAfter current
                       [SetVotedProposals (votedProposals(pid \<mapsto> support))]) pid
          = PendingLocal support
      \<and> submissions rest = submissions (snd (castVote env pid support))
      \<and> ((\<exists>e. fst (castVote env pid support) = Inl e) \<longrightarrow>
            localState (votedAfter current (submitVote env votedProposals pid support)) pid
              = Unvoted)
      \<and> ((\<exists>r. fst (castVote env pid support) = Inr r) \<longrightarrow>
            localState (votedAfter current (submitVote env votedProposals pid support)) pid
              = PendingLocal support)"
proof -
  obtain r effs where cv: "castVote env pid support = (r, effs)"
    by (cases "castVote env pid support")
  have keep: "\<And>m. votedAfter m effs = m"
    using votedAfter_castVote[of _ env pid support] cv by simp
  have pending: "localState (votedAfter current
                       [SetVotedProposals (votedProposals(pid \<mapsto> support))]) pid
          = PendingLocal support"
    by (simp add: votedAfter_Cons_set votedAfter_Cons_other localState_def)
  show ?thesis
  proof (cases r)
    case (Inl err)
    let ?rest = "effs @ [Alert err, SetVotedProposals (votedProposals(pid := None))]"
    have sv: "submitVote env votedProposals pid support
        = SetVotedProposals (votedProposals(pid \<mapsto> support)) # ?rest"
      using cv Inl by (simp add: submitVote_def Let_def)
    have final: "votedAfter current (submitVote env votedProposals pid support)
        = votedProposals(pid := None)"
      unfolding sv votedAfter_Cons_set votedAfter_append keep
      by (simp add: votedAfter_Cons_other votedAfter_Cons_set)
    have subs: "submissions ?rest = submissions (snd (castVote env pid support))"
      using cv by (simp add: submissions_append) (simp add: submissions_def)
    from sv pending subs final cv Inl show ?thesis
      by (intro exI[of _ ?rest]) (simp add: localState_def)
  next
    case (Inr res)
    have sv: "submitVote env votedProposals pid support
        = SetVotedProposals (votedProposals(pid \<mapsto> support)) # effs"
      using cv Inr by (simp add: submitVote_def Let_def)
    have final: "votedAfter current (submitVote env votedProposals pid support)
        = votedProposals(pid \<mapsto> support)"
      unfolding sv votedAfter_Cons_set keep ..
    from sv pending final cv Inr show ?thesis
      by (intro exI[of _ effs]) (simp add: localState_def)
  qed
qed

theorem submitVote_witness:
  "fst (castVote voterEnv 7 1) = Inl (Upstream ''revert'')
   \<and> submissions (submitVote voterEnv Map.empty 7 1) = [(7, 1)]
   \<and> localState (votedAfter Map.empty (submitVote voterEnv Map.empty 7 1)) 7 = Unvoted
   \<and> (\<exists>r. fst (castVote confirmingEnv 7 1) = Inr r)
   \<and> localState (votedAfter Map.empty (submitVote confirmingEnv Map.empty 7 1)) 7 = PendingLocal 1"
proof -
  have b1: "castVoteBody voterEnv 7 1 = (Inl (Upstream ''revert''), [SubmitVote 7 1])"
    by (simp add: castVoteBody_def eval_cast)
  have c1: "fst (castVote voterEnv 7 1) = Inl (Upstream ''revert'')"
    "submissions (snd (castVote voterEnv 7 1)) = [(7, 1)]"
    using b1 by (simp_all add: castVote_def eval_cast submissions_def)
  have b2: "\<exists>r. castVoteBody confirmingEnv 7 1 = (Inr r, [SubmitVote 7 1])"
    by (simp add: castVoteBody_def confirmingEnv_def eval_cast)
  then have c2: "\<exists>r. fst (castVote confirmingEnv 7 1) = Inr r"
    by (auto simp: castVote_def confirmingEnv_def eval_cast)
  from submitVote_records_first_and_rolls_back[of voterEnv Map.empty 7 1 Map.empty]
  obtain rest where r1: "submitVote voterEnv Map.empty 7 1 = SetVotedProposals [7 \<mapsto> 1] # rest"
    "submissions rest = submissions (snd (castVote voterEnv 7 1))"
    "localState (votedAfter Map.empty (submitVote voterEnv Map.empty 7 1)) 7 = Unvoted"
    using c1(1) by auto
  from submitVote_records_first_and_rolls_back[of confirmingEnv Map.empty 7 1 Map.empty] c2
  have r2: "localState (votedAfter Map.empty (submitVote confirmingEnv Map.empty 7 1)) 7
      = PendingLocal 1"
    by auto
  from r1 c1 c2 r2 show ?thesis by (simp add: submissions_Cons_set)
qed

subsection \<open>The read paths\<close>








subsection \<open>The governance metrics\<close>

lemma checkedRate_range:
  assumes "1 / 100 < f" and "f \<le> 1"
  shows "\<exists>q. checkedRate f x = Num q \<and> 1 / 100 < q \<and> q \<le> 1"
proof (cases x)
  case NaN
  with assms show ?thesis by (simp add: checkedRate_def implausible_def isNaN_def)
next
  case (Num q)
  show ?thesis
  proof (cases "q \<le> 1 / 100 \<or> q > 1")
    case True
    with Num assms show ?thesis by (simp add: checkedRate_def implausible_def isNaN_def)
  next
    case False
    then have "1 / 100 < q" "q \<le> 1" by simp_all
    with Num False show ?thesis by (simp add: checkedRate_def implausible_def isNaN_def)
  qed
qed

lemma checkedRate_eq:
  "checkedRate d x = (if implausible x \<or> isNaN x then Num d else x)"
  by (cases x) (simp_all add: checkedRate_def implausible_def isNaN_def Let_def)

text \<open>
  Claim C9. Each of the three rates \<open>fetchGovernanceMetrics\<close> returns is a number above
  0.01 and at most 1, never \<open>NaN\<close>; a rate gathered from the analytics helper or the
  snapshot that is at most 0.01, above 1 or \<open>NaN\<close> is replaced by its default (0.27 for
  participation, 0.38 for delegation, 0.73 for the success rate), and any other rate is
  returned as gathered.
\<close>

theorem metrics_within_plausible_range:
  "(\<exists>p d s. fetchGovernanceMetrics env =
        \<lparr> participationRate = Num p, delegationRate = Num d, proposalSuccessRate = Num s \<rparr>
      \<and> 1 / 100 < p \<and> p \<le> 1 \<and> 1 / 100 < d \<and> d \<le> 1 \<and> 1 / 100 < s \<and> s \<le> 1)
   \<and> participationRate (fetchGovernanceMetrics env) =
       (if implausible (participationRate (gatherRates env))
           \<or> isNaN (participationRate (gatherRates env))
        then Num (27 / 100) else participationRate (gatherRates env))
   \<and> delegationRate (fetchGovernanceMetrics env) =
       (if implausible (delegationRate (gatherRates env))
           \<or> isNaN (delegationRate (gatherRates env))
        then Num (38 / 100) else delegationRate (gatherRates env))
   \<and> proposalSuccessRate (fetchGovernanceMetrics env) =
       (if implausible (proposalSuccessRate (gatherRates env))
           \<or> isNaN (proposalSuccessRate (gatherRates env))
        then Num (73 / 100) else proposalSuccessRate (gatherRates env))"
proof -
  let ?g = "gatherRates env"
  have fields: "participationRate (fetchGovernanceMetrics env)
        = checkedRate (27 / 100) (participationRate ?g)"
       "delegationRate (fetchGovernanceMetrics env)
        = checkedRate (38 / 100) (delegationRate ?g)"
       "proposalSuccessRate (fetchGovernanceMetrics env)
        = checkedRate (73 / 100) (proposalSuccessRate ?g)"
    unfolding fetchGovernanceMetrics_def Let_def by (simp_all only: rates.simps)
  have whole: "fetchGovernanceMetrics env =
        \<lparr> participationRate = checkedRate (27 / 100) (participationRate ?g),
          delegationRate = checkedRate (38 / 100) (delegationRate ?g),
          proposalSuccessRate = checkedRate (73 / 100) (proposalSuccessRate ?g) \<rparr>"
    unfolding fetchGovernanceMetrics_def Let_def ..
  obtain p where p: "checkedRate (27 / 100) (participationRate ?g) = Num p"
    "1 / 100 < p" "p \<le> 1"
    using checkedRate_range[of "27 / 100" "participationRate ?g"] by auto
  obtain d where d: "checkedRate (38 / 100) (delegationRate ?g) = Num d"
    "1 / 100 < d" "d \<le> 1"
    using checkedRate_range[of "38 / 100" "delegationRate ?g"] by auto
  obtain s where s: "checkedRate (73 / 100) (proposalSuccessRate ?g) = Num s"
    "1 / 100 < s" "s \<le> 1"
    using checkedRate_range[of "73 / 100" "proposalSuccessRate ?g"] by auto
  have range: "\<exists>p d s. fetchGovernanceMetrics env =
        \<lparr> participationRate = Num p, delegationRate = Num d, proposalSuccessRate = Num s \<rparr>
      \<and> 1 / 100 < p \<and> p \<le> 1 \<and> 1 / 100 < d \<and> d \<le> 1 \<and> 1 / 100 < s \<and> s \<le> 1"
    unfolding whole p(1) d(1) s(1) using p(2,3) d(2,3) s(2,3) by blast
  note eqs = fields[unfolded checkedRate_eq]
  show ?thesis
    by (intro conjI) (fact range, fact eqs(1), fact eqs(2), fact eqs(3))
qed

theorem metrics_within_plausible_range_witness:
  "gatherRates sampleStats =
     \<lparr> participationRate = Num (45 / 100), delegationRate = Num 0,
       proposalSuccessRate = Num (250 / 100) \<rparr>
   \<and> fetchGovernanceMetrics sampleStats =
     \<lparr> participationRate = Num (45 / 100), delegationRate = Num (38 / 100),
       proposalSuccessRate = Num (73 / 100) \<rparr>"
proof -
  have g: "gatherRates sampleStats =
     \<lparr> participationRate = Num (45 / 100), delegationRate = Num 0,
       proposalSuccessRate = Num (250 / 100) \<rparr>"
    by (simp add: gatherRates_def sampleStats_def analyticsBlock_def proposalPart_def
        tokenPart_def snapshotBlock_def fieldNumber_def bigNumber_def truthy_def divNum_def
        defaultRates_def Let_def)
  from metrics_within_plausible_range[of sampleStats] g
  show ?thesis
    by (auto simp: implausible_def isNaN_def)
qed

end
